theory Spec2Isabelle
  imports Complex_Main "HOL-Library.Sublist"
begin

section \<open>Text\<close>

text \<open>
  Python text is modelled as \<^typ>\<open>string\<close>: one \<^typ>\<open>char\<close> per ASCII character,
  and the UTF-8 bytes of any other code point. \<open>isspace\<close> is Python's
  \<^verbatim>\<open>str.isspace\<close> on the ASCII range (tab, newline, vertical tab, form feed,
  carriage return, the separators 28 to 31, space), \<open>lower\<close> and \<open>upper\<close> map the
  26 ASCII letters and leave every other byte as it is. The model is exact for text whose
  non-ASCII code points have no case mapping and are not white space.
\<close>

definition isspace :: "char \<Rightarrow> bool" where
  "isspace c \<longleftrightarrow>
     c \<in> set [CHR 0x09, CHR 0x0A, CHR 0x0B, CHR 0x0C, CHR 0x0D,
                CHR 0x1C, CHR 0x1D, CHR 0x1E, CHR 0x1F, CHR 0x20]"

definition ascii_uppercase :: string where
  "ascii_uppercase = ''ABCDEFGHIJKLMNOPQRSTUVWXYZ''"

definition ascii_lowercase :: string where
  "ascii_lowercase = ''abcdefghijklmnopqrstuvwxyz''"

definition lower_char :: "char \<Rightarrow> char" where
  "lower_char c = (case map_of (zip ascii_uppercase ascii_lowercase) c of Some d \<Rightarrow> d | None \<Rightarrow> c)"

definition upper_char :: "char \<Rightarrow> char" where
  "upper_char c = (case map_of (zip ascii_lowercase ascii_uppercase) c of Some d \<Rightarrow> d | None \<Rightarrow> c)"

definition lower :: "string \<Rightarrow> string" where
  "lower s = map lower_char s"

definition upper :: "string \<Rightarrow> string" where
  "upper s = map upper_char s"

text \<open>\<^verbatim>\<open>s.strip()\<close>: leading and trailing white space removed.\<close>

definition lstrip :: "string \<Rightarrow> string" where
  "lstrip s = dropWhile isspace s"

definition rstrip :: "string \<Rightarrow> string" where
  "rstrip s = rev (dropWhile isspace (rev s))"

definition strip :: "string \<Rightarrow> string" where
  "strip s = rstrip (lstrip s)"

text \<open>\<^verbatim>\<open>s.strip(chars)\<close> with an explicit set of characters.\<close>

definition strip_chars :: "string \<Rightarrow> string \<Rightarrow> string" where
  "strip_chars chars s =
     rev (dropWhile (\<lambda>c. c \<in> set chars) (rev (dropWhile (\<lambda>c. c \<in> set chars) s)))"

text \<open>\<^verbatim>\<open>s.startswith(p)\<close>.\<close>

definition startswith :: "string \<Rightarrow> string \<Rightarrow> bool" where
  "startswith s p = (take (length p) s = p)"

section \<open>Command safety gate: the allow-list\<close>

text \<open>\<^verbatim>\<open>self.allowed_command_prefixes\<close>, as set in \<^verbatim>\<open>__init__\<close>.\<close>

definition allowed_command_prefixes :: "string list" where
  "allowed_command_prefixes =
     [''dir'', ''type'', ''python -m http.server'', ''python -c'', ''py -m http.server'',
      ''pip show'', ''pip list'', ''ollama list'']"

text \<open>
  The loop of \<^verbatim>\<open>_is_command_allowed\<close> over the prefixes, returning at the first match.
\<close>

fun any_prefix_matches :: "string list \<Rightarrow> string \<Rightarrow> bool" where
  "any_prefix_matches [] cmd = False"
| "any_prefix_matches (p # ps) cmd =
     (if startswith cmd (lower p) then True else any_prefix_matches ps cmd)"

text \<open>
  \<^verbatim>\<open>_is_command_allowed(command)\<close>. For a \<^verbatim>\<open>str\<close> argument
  \<^verbatim>\<open>(command or "")\<close> is the argument itself.
\<close>

definition is_command_allowed_in :: "string list \<Rightarrow> string \<Rightarrow> bool" where
  "is_command_allowed_in allowed command =
     (let cmd = lower (strip command)
      in if cmd = [] then False else any_prefix_matches allowed cmd)"

definition is_command_allowed :: "string \<Rightarrow> bool" where
  "is_command_allowed command = is_command_allowed_in allowed_command_prefixes command"

section \<open>Values of the Python runtime\<close>

text \<open>
  The values that \<^verbatim>\<open>json.loads\<close> produces and that the memory dictionary holds:
  \<^verbatim>\<open>None\<close>, \<^verbatim>\<open>bool\<close>, \<^verbatim>\<open>int\<close>, \<^verbatim>\<open>float\<close> (its finite values; no arithmetic is
  done on them), \<^verbatim>\<open>str\<close>, \<^verbatim>\<open>list\<close> and \<^verbatim>\<open>dict\<close>. A dictionary is an association
  list read with \<^const>\<open>map_of\<close>.
\<close>

datatype json =
    JNull
  | JBool bool
  | JInt int
  | JFloat rat
  | JString string
  | JArray "json list"
  | JObject "(string \<times> json) list"

text \<open>Truth value of a Python object, as in \<^verbatim>\<open>if not x\<close>.\<close>

fun truthy :: "json \<Rightarrow> bool" where
  "truthy JNull = False"
| "truthy (JBool b) = b"
| "truthy (JInt n) = (n \<noteq> 0)"
| "truthy (JFloat f) = (f \<noteq> 0)"
| "truthy (JString s) = (s \<noteq> [])"
| "truthy (JArray xs) = (xs \<noteq> [])"
| "truthy (JObject kvs) = (kvs \<noteq> [])"

text \<open>\<^verbatim>\<open>d.get(k)\<close> and \<^verbatim>\<open>d.get(k, default)\<close>.\<close>

definition dict_get_or :: "json \<Rightarrow> (string \<times> json) list \<Rightarrow> string \<Rightarrow> json" where
  "dict_get_or dflt kvs k = (case map_of kvs k of None \<Rightarrow> dflt | Some v \<Rightarrow> v)"

definition dict_get :: "(string \<times> json) list \<Rightarrow> string \<Rightarrow> json" where
  "dict_get kvs k = dict_get_or JNull kvs k"

text \<open>\<^verbatim>\<open>type(v).__name__\<close>.\<close>

fun type_name :: "json \<Rightarrow> string" where
  "type_name JNull = ''NoneType''"
| "type_name (JBool b) = ''bool''"
| "type_name (JInt n) = ''int''"
| "type_name (JFloat f) = ''float''"
| "type_name (JString s) = ''str''"
| "type_name (JArray xs) = ''list''"
| "type_name (JObject kvs) = ''dict''"

text \<open>
  An exception of class \<^verbatim>\<open>Exception\<close> (or a subclass), carrying \<^verbatim>\<open>str(e)\<close>. The
  handlers of the program distinguish no subclass except \<^verbatim>\<open>TimeoutExpired\<close> and
  \<^verbatim>\<open>ValueError\<close>, which the model treats where they are caught.
\<close>

datatype exn = Exception string

fun exn_str :: "exn \<Rightarrow> string" where
  "exn_str (Exception m) = m"

definition attribute_error :: "json \<Rightarrow> string \<Rightarrow> exn" where
  "attribute_error v attr =
     Exception ([CHR 0x27] @ type_name v @ [CHR 0x27] @ '' object has no attribute ''
                @ [CHR 0x27] @ attr @ [CHR 0x27])"

text \<open>\<^verbatim>\<open>xs[i:]\<close> for a Python integer \<open>i\<close>: a negative \<open>i\<close> counts from the end.\<close>

definition py_slice_from :: "int \<Rightarrow> 'a list \<Rightarrow> 'a list" where
  "py_slice_from i xs =
     (if i < 0 then drop (nat (int (length xs) + i)) xs else drop (nat i) xs)"

text \<open>\<^verbatim>\<open>sep.join(parts)\<close> on strings.\<close>

fun join :: "string \<Rightarrow> string list \<Rightarrow> string" where
  "join sep [] = []"
| "join sep [x] = x"
| "join sep (x # y # ys) = x @ sep @ join sep (y # ys)"

definition nl :: string where
  "nl = [CHR 0x0A]"

text \<open>The pictographs of the messages, as their UTF-8 bytes.\<close>

definition cross_mark :: string where
  "cross_mark = [CHR 0xE2, CHR 0x9D, CHR 0x8C]"

definition check_mark :: string where
  "check_mark = [CHR 0xE2, CHR 0x9C, CHR 0x85]"

definition info_mark :: string where
  "info_mark = [CHR 0xE2, CHR 0x84, CHR 0xB9, CHR 0xEF, CHR 0xB8, CHR 0x8F]"

definition warning_mark :: string where
  "warning_mark = [CHR 0xE2, CHR 0x9A, CHR 0xA0, CHR 0xEF, CHR 0xB8, CHR 0x8F]"

definition clipboard_mark :: string where
  "clipboard_mark = [CHR 0xF0, CHR 0x9F, CHR 0x93, CHR 0x8B]"

section \<open>Session state and external collaborators\<close>

text \<open>
  One entry of \<^verbatim>\<open>chat_history\<close>: \<^verbatim>\<open>{"role": ..., "content": ...}\<close>. The agent
  appends entries of this form only; a memory file edited by hand into another shape is
  not modelled.
\<close>

record message =
  role :: string
  content :: string

definition message_json :: "message \<Rightarrow> json" where
  "message_json m = JObject [(''role'', JString (role m)), (''content'', JString (content m))]"

type_synonym memory = "string \<Rightarrow> json option"

text \<open>
  The fields of \<^verbatim>\<open>SimpleAgent\<close> that the request cycle reads or writes. \<open>world\<close> is
  everything outside the process (files, child processes, the model servers, the
  retrieval store); the two \<^verbatim>\<open>ChatOllama\<close> clients are part of it.
  \<open>chroma_collection\<close> tells whether \<^verbatim>\<open>self._chroma_collection\<close> is set,
  \<open>server_process\<close> holds the handle of the spawned file server, and the two prompts
  are the texts assigned in \<^verbatim>\<open>__init__\<close>.
\<close>

record 'w agent =
  tavily_api_key :: "string option"
  memory :: memory
  chat_history :: "message list"
  max_history :: int
  model_name :: string
  planner_model_name :: string
  server_process :: "nat option"
  pending_command :: "string option"
  pending_command_reason :: "string option"
  rag_enabled :: bool
  rag_embed_model :: string
  rag_k :: int
  chroma_collection :: bool
  system_prompt :: string
  planner_prompt :: string
  world :: 'w

text \<open>Outcome of \<^verbatim>\<open>subprocess.run(..., timeout=30)\<close>.\<close>

datatype run_outcome =
    Completed int string string
  | TimeoutExpired
  | RunFailed exn

text \<open>Outcome of looking a file up and reading it in \<^verbatim>\<open>_read_file_text\<close>.\<close>

datatype file_read = NoSuchFile | FileText string | ReadFailed exn

text \<open>
  The collaborators and the functions of the Python runtime that the agent calls. Each
  collaborator reads and changes the world; a call that can raise returns the exception
  as a value.
\<close>

record 'w env =
  py_repr :: "json \<Rightarrow> string"
  py_int :: "json \<Rightarrow> exn + int"
  int_of_str :: "string \<Rightarrow> int option"
  json_dumps :: "json \<Rightarrow> string"
  json_loads :: "string \<Rightarrow> exn + json"
  dump_memory :: "memory \<Rightarrow> 'w \<Rightarrow> 'w"
  init_llm :: "string \<Rightarrow> string \<Rightarrow> memory \<Rightarrow> 'w \<Rightarrow> exn option \<times> 'w"
  planner_invoke :: "(string \<times> string) list \<Rightarrow> 'w \<Rightarrow> (exn + string) \<times> 'w"
  llm_invoke :: "(string \<times> string) list \<Rightarrow> 'w \<Rightarrow> (exn + string) \<times> 'w"
  subprocess_run :: "json \<Rightarrow> 'w \<Rightarrow> run_outcome \<times> 'w"
  write_file :: "json \<Rightarrow> json \<Rightarrow> 'w \<Rightarrow> exn option \<times> 'w"
  tavily_search :: "string \<Rightarrow> json \<Rightarrow> 'w \<Rightarrow> (exn + string) \<times> 'w"
  embeddings_request :: "string \<Rightarrow> string \<Rightarrow> 'w \<Rightarrow> (exn + json) \<times> 'w"
  chroma_add :: "string \<Rightarrow> json \<Rightarrow> string \<Rightarrow> 'w \<Rightarrow> exn option \<times> 'w"
  chroma_query :: "json \<Rightarrow> int \<Rightarrow> 'w \<Rightarrow> (exn + json list) \<times> 'w"
  os_isdir :: "string \<Rightarrow> 'w \<Rightarrow> bool \<times> 'w"
  proc_poll :: "nat \<Rightarrow> 'w \<Rightarrow> int option \<times> 'w"
  popen_server :: "string \<Rightarrow> int \<Rightarrow> 'w \<Rightarrow> (exn + nat) \<times> 'w"
  proc_stop :: "nat \<Rightarrow> 'w \<Rightarrow> 'w"
  list_folder :: "string \<Rightarrow> 'w \<Rightarrow> (exn + string) \<times> 'w"
  read_text :: "string \<Rightarrow> 'w \<Rightarrow> file_read \<times> 'w"
  getcwd :: "'w \<Rightarrow> (exn + string) \<times> 'w"

text \<open>\<^verbatim>\<open>str(v)\<close>, as an f-string formats a value.\<close>

definition py_str :: "'w env \<Rightarrow> json \<Rightarrow> string" where
  "py_str env v = (case v of JString s \<Rightarrow> s | _ \<Rightarrow> py_repr env v)"

section \<open>Memory store and chat history\<close>

text \<open>
  \<^verbatim>\<open>save_memory\<close>: the last 30 history entries are stored under \<^verbatim>\<open>"chat_history"\<close>
  and the dictionary is written to the memory file; a failure of the write is swallowed.
\<close>

definition save_memory :: "'w env \<Rightarrow> 'w agent \<Rightarrow> 'w agent" where
  "save_memory env s =
     (let m = (memory s)(''chat_history'' \<mapsto>
                 JArray (map message_json (py_slice_from (- 30) (chat_history s))))
      in s\<lparr>memory := m, world := dump_memory env m (world s)\<rparr>)"

definition remember :: "'w env \<Rightarrow> string \<Rightarrow> json \<Rightarrow> 'w agent \<Rightarrow> 'w agent" where
  "remember env key v s = save_memory env (s\<lparr>memory := (memory s)(key \<mapsto> v)\<rparr>)"

text \<open>\<^verbatim>\<open>_append_history\<close>: append, keep \<^verbatim>\<open>chat_history[-self.max_history:]\<close>, save.\<close>

definition append_history :: "'w env \<Rightarrow> string \<Rightarrow> string \<Rightarrow> 'w agent \<Rightarrow> 'w agent" where
  "append_history env r c s =
     save_memory env
       (s\<lparr>chat_history :=
            py_slice_from (- max_history s) (chat_history s @ [\<lparr>role = r, content = c\<rparr>])\<rparr>)"

text \<open>A sequence of appends, oldest first.\<close>

fun append_all :: "'w env \<Rightarrow> message list \<Rightarrow> 'w agent \<Rightarrow> 'w agent" where
  "append_all env [] s = s"
| "append_all env (m # ms) s = append_all env ms (append_history env (role m) (content m) s)"

section \<open>Model selection\<close>

definition set_model :: "'w env \<Rightarrow> string \<Rightarrow> 'w agent \<Rightarrow> (exn + string) \<times> 'w agent" where
  "set_model env name s =
     (let n = strip name in
      if n = [] then (Inr (cross_mark @ '' Usage: /model <model-name>''), s)
      else
        let s1 = save_memory env
                   (s\<lparr>model_name := n, memory := (memory s)(''model_name'' \<mapsto> JString n)\<rparr>);
            (r, w) = init_llm env (model_name s1) (planner_model_name s1) (memory s1) (world s1);
            s2 = s1\<lparr>world := w\<rparr>
        in case r of
             Some e \<Rightarrow> (Inl e, s2)
           | None \<Rightarrow> (Inr (check_mark @ '' Model set to: '' @ n), s2))"

definition set_planner_model ::
  "'w env \<Rightarrow> string \<Rightarrow> 'w agent \<Rightarrow> (exn + string) \<times> 'w agent" where
  "set_planner_model env name s =
     (let n = strip name in
      if n = [] then (Inr (cross_mark @ '' Usage: /planner <model-name>''), s)
      else
        let s1 = save_memory env
                   (s\<lparr>planner_model_name := n,
                      memory := (memory s)(''planner_model_name'' \<mapsto> JString n)\<rparr>);
            (r, w) = init_llm env (model_name s1) (planner_model_name s1) (memory s1) (world s1);
            s2 = s1\<lparr>world := w\<rparr>
        in case r of
             Some e \<Rightarrow> (Inl e, s2)
           | None \<Rightarrow> (Inr (check_mark @ '' Planner model set to: '' @ n), s2))"

section \<open>Command execution and the pending command\<close>

text \<open>\<^verbatim>\<open>run_command\<close>: every exception is turned into a result text.\<close>

definition run_command :: "'w env \<Rightarrow> json \<Rightarrow> 'w agent \<Rightarrow> string \<times> 'w agent" where
  "run_command env command s =
     (let (r, w) = subprocess_run env command (world s); s' = s\<lparr>world := w\<rparr>
      in case r of
           Completed rc out err \<Rightarrow>
             (clipboard_mark @ '' Command: '' @ py_str env command @ nl
                @ ''Exit code: '' @ py_str env (JInt rc) @ nl
                @ (if out \<noteq> [] then ''Output:'' @ nl @ out @ nl else [])
                @ (if err \<noteq> [] then ''Error:'' @ nl @ err @ nl else []), s')
         | TimeoutExpired \<Rightarrow> (cross_mark @ '' Command timed out: '' @ py_str env command, s')
         | RunFailed e \<Rightarrow> (cross_mark @ '' Failed to run command: '' @ exn_str e, s'))"

definition queue_command :: "string \<Rightarrow> string \<Rightarrow> 'w agent \<Rightarrow> string \<times> 'w agent" where
  "queue_command command reason s =
     (warning_mark @ '' Command requires confirmation.'' @ nl
        @ ''Reason: '' @ reason @ nl
        @ ''Pending: '' @ command @ nl @ nl
        @ ''Use /confirm to run it or /cancel to discard.'',
      s\<lparr>pending_command := Some command, pending_command_reason := Some reason\<rparr>)"

definition no_pending_command :: string where
  "no_pending_command = info_mark @ '' No pending command.''"

text \<open>The test \<^verbatim>\<open>not self._pending_command\<close>, negated: a command is pending.\<close>

definition has_pending :: "'w agent \<Rightarrow> bool" where
  "has_pending s = (case pending_command s of None \<Rightarrow> False | Some c \<Rightarrow> c \<noteq> [])"

definition confirm_command :: "'w env \<Rightarrow> 'w agent \<Rightarrow> string \<times> 'w agent" where
  "confirm_command env s =
     (case pending_command s of
        None \<Rightarrow> (no_pending_command, s)
      | Some cmd \<Rightarrow>
          if cmd = [] then (no_pending_command, s)
          else run_command env (JString cmd)
                 (s\<lparr>pending_command := None, pending_command_reason := None\<rparr>))"

definition cancel_command :: "'w agent \<Rightarrow> string \<times> 'w agent" where
  "cancel_command s =
     (case pending_command s of
        None \<Rightarrow> (no_pending_command, s)
      | Some cmd \<Rightarrow>
          if cmd = [] then (no_pending_command, s)
          else (check_mark @ '' Pending command canceled.'',
                s\<lparr>pending_command := None, pending_command_reason := None\<rparr>))"

section \<open>Tools of the plan executor\<close>

text \<open>
  \<^verbatim>\<open>web_search\<close>. The request to the search provider and the formatting of its answer
  (the body of the \<^verbatim>\<open>try\<close>) are the collaborator \<open>tavily_search\<close>.
\<close>

definition web_search :: "'w env \<Rightarrow> json \<Rightarrow> 'w agent \<Rightarrow> string \<times> 'w agent" where
  "web_search env query s =
     (let unavailable =
            cross_mark @ '' Tavily API key not configured. Web search is not available.''
      in case tavily_api_key s of
           None \<Rightarrow> (unavailable, s)
         | Some key \<Rightarrow>
             if key = [] then (unavailable, s)
             else
               let (r, w) = tavily_search env key query (world s); s' = s\<lparr>world := w\<rparr>
               in case r of
                    Inr formatted \<Rightarrow> (formatted, s')
                  | Inl e \<Rightarrow> (cross_mark @ '' Web search failed: '' @ exn_str e, s'))"

text \<open>\<^verbatim>\<open>create_file\<close>: directories, open and write are the collaborator \<open>write_file\<close>.\<close>

definition create_file :: "'w env \<Rightarrow> json \<Rightarrow> json \<Rightarrow> 'w agent \<Rightarrow> string \<times> 'w agent" where
  "create_file env filepath text s =
     (let (r, w) = write_file env filepath text (world s); s' = s\<lparr>world := w\<rparr>
      in case r of
           None \<Rightarrow> (check_mark @ '' Successfully created: '' @ py_str env filepath, s')
         | Some e \<Rightarrow>
             (cross_mark @ '' Failed to create '' @ py_str env filepath @ '': '' @ exn_str e, s'))"

section \<open>Plan executor\<close>

definition missing_path :: string where
  "missing_path = cross_mark @ '' create_file missing '' @ [CHR 0x27] @ ''path'' @ [CHR 0x27]"

definition missing_command :: string where
  "missing_command = cross_mark @ '' run_command missing '' @ [CHR 0x27] @ ''command'' @ [CHR 0x27]"

definition missing_query :: string where
  "missing_query = cross_mark @ '' web_search missing '' @ [CHR 0x27] @ ''query'' @ [CHR 0x27]"

text \<open>
  The body of the loop of \<^verbatim>\<open>_execute_plan\<close> for one action: the value appended to
  \<^verbatim>\<open>outputs\<close>, if any. An action that is not a dictionary has no \<^verbatim>\<open>get\<close>, which
  raises.
\<close>

definition run_action :: "'w env \<Rightarrow> json \<Rightarrow> 'w agent \<Rightarrow> (exn + json option) \<times> 'w agent" where
  "run_action env action s =
     (case action of
        JObject kvs \<Rightarrow>
          (let tool = dict_get kvs ''tool'' in
           if tool = JString ''create_file'' then
             (let path = dict_get kvs ''path''; text = dict_get_or (JString []) kvs ''content''
              in if \<not> truthy path then (Inr (Some (JString missing_path)), s)
                 else let (out, s') = create_file env path text s
                      in (Inr (Some (JString out)), s'))
           else if tool = JString ''run_command'' then
             (let cmd = dict_get kvs ''command''
              in if \<not> truthy cmd then (Inr (Some (JString missing_command)), s)
                 else let (out, s') = run_command env cmd s
                      in (Inr (Some (JString out)), s'))
           else if tool = JString ''web_search'' then
             (let query = dict_get kvs ''query''
              in if \<not> truthy query then (Inr (Some (JString missing_query)), s)
                 else let (out, s') = web_search env query s
                      in (Inr (Some (JString out)), s'))
           else if tool = JString ''reply'' then
             (let text = dict_get_or (JString []) kvs ''text''
              in if truthy text then (Inr (Some text), s) else (Inr None, s))
           else
             (Inr (Some (JString (cross_mark @ '' Unknown tool in plan: '' @ py_str env tool))), s))
      | _ \<Rightarrow> (Inl (attribute_error action ''get''), s))"

text \<open>The loop over the actions, in order; an exception ends it.\<close>

fun run_actions ::
  "'w env \<Rightarrow> json list \<Rightarrow> json list \<Rightarrow> 'w agent \<Rightarrow> (exn + json list) \<times> 'w agent" where
  "run_actions env [] outputs s = (Inr outputs, s)"
| "run_actions env (action # rest) outputs s =
     (case run_action env action s of
        (Inl e, s') \<Rightarrow> (Inl e, s')
      | (Inr None, s') \<Rightarrow> run_actions env rest outputs s'
      | (Inr (Some out), s') \<Rightarrow> run_actions env rest (outputs @ [out]) s')"

text \<open>
  \<^verbatim>\<open>"\n".join([o for o in outputs if o is not None and o != ""])\<close>: joining raises
  when a kept output is not a string (a \<^verbatim>\<open>reply\<close> whose text is, say, a number).
\<close>

fun strs_of :: "json list \<Rightarrow> string list option" where
  "strs_of [] = Some []"
| "strs_of (JString t # vs) = map_option (Cons t) (strs_of vs)"
| "strs_of (v # vs) = None"

definition join_outputs :: "json list \<Rightarrow> exn + string" where
  "join_outputs outputs =
     (case strs_of (filter (\<lambda>v. v \<noteq> JNull \<and> v \<noteq> JString []) outputs) of
        Some ts \<Rightarrow> Inr (join nl ts)
      | None \<Rightarrow> Inl (Exception ''sequence item: expected str instance''))"

text \<open>
  What \<^verbatim>\<open>for action in v\<close> iterates over: the elements of a list, the characters of a
  string, the keys of a dictionary; other values are not iterable.
\<close>

definition py_iter :: "json \<Rightarrow> exn + json list" where
  "py_iter v =
     (case v of
        JArray xs \<Rightarrow> Inr xs
      | JString t \<Rightarrow> Inr (map (\<lambda>c. JString [c]) t)
      | JObject kvs \<Rightarrow> Inr (map JString (remdups (map fst kvs)))
      | _ \<Rightarrow> Inl (Exception ([CHR 0x27] @ type_name v @ [CHR 0x27] @ '' object is not iterable'')))"

definition execute_plan :: "'w env \<Rightarrow> json \<Rightarrow> 'w agent \<Rightarrow> (exn + string) \<times> 'w agent" where
  "execute_plan env plan s =
     (case plan of
        JObject kvs \<Rightarrow>
          (case py_iter (dict_get_or (JArray []) kvs ''actions'') of
             Inl e \<Rightarrow> (Inl e, s)
           | Inr actions \<Rightarrow>
               (case run_actions env actions [] s of
                  (Inl e, s') \<Rightarrow> (Inl e, s')
                | (Inr outputs, s') \<Rightarrow> (join_outputs outputs, s')))
      | _ \<Rightarrow> (Inl (attribute_error plan ''get''), s))"


section \<open>Retrieval memory\<close>

text \<open>
  \<^verbatim>\<open>_ollama_embed\<close>: the HTTP request is the collaborator \<open>embeddings_request\<close>, which
  yields the \<^verbatim>\<open>"embedding"\<close> entry of the response; every failure gives the empty list.
\<close>

definition ollama_embed :: "'w env \<Rightarrow> string \<Rightarrow> 'w agent \<Rightarrow> json \<times> 'w agent" where
  "ollama_embed env text s =
     (let t = strip text in
      if t = [] then (JArray [], s)
      else
        let (r, w) = embeddings_request env (rag_embed_model s) t (world s); s' = s\<lparr>world := w\<rparr>
        in case r of
             Inl e \<Rightarrow> (JArray [], s')
           | Inr v \<Rightarrow> (if truthy v then v else JArray [], s'))"

text \<open>\<^verbatim>\<open>rag_add(text, meta={"type": kind})\<close>.\<close>

definition rag_add :: "'w env \<Rightarrow> string \<Rightarrow> string \<Rightarrow> 'w agent \<Rightarrow> string \<times> 'w agent" where
  "rag_add env text kind s =
     (if \<not> rag_enabled s then (info_mark @ '' RAG memory is disabled.'', s)
      else if \<not> chroma_collection s then
        (cross_mark @ '' ChromaDB is not available. Install dependencies and restart.'', s)
      else
        let t = strip text in
        if t = [] then (cross_mark @ '' Usage: /remember <text>'', s)
        else
          let (emb, s1) = ollama_embed env t s in
          if \<not> truthy emb then
            (cross_mark @ '' Could not create embeddings (is Ollama running and is the embed model available?).'', s1)
          else
            let (r, w) = chroma_add env t emb kind (world s1); s2 = s1\<lparr>world := w\<rparr>
            in case r of
                 None \<Rightarrow> (check_mark @ '' Saved to RAG memory.'', s2)
               | Some e \<Rightarrow> (cross_mark @ '' Failed to save to RAG memory: '' @ exn_str e, s2))"

text \<open>\<^verbatim>\<open>rag_query(query, k)\<close>; \<^verbatim>\<open>k or self.rag_k\<close> is \<open>rag_k\<close> when \<open>k\<close> is 0.\<close>

definition rag_query :: "'w env \<Rightarrow> string \<Rightarrow> int \<Rightarrow> 'w agent \<Rightarrow> json list \<times> 'w agent" where
  "rag_query env query k s =
     (if \<not> rag_enabled s then ([], s)
      else if \<not> chroma_collection s then ([], s)
      else
        let q = strip query in
        if q = [] then ([], s)
        else
          let (emb, s1) = ollama_embed env q s in
          if \<not> truthy emb then ([], s1)
          else
            let (r, w) = chroma_query env emb (if k \<noteq> 0 then k else rag_k s1) (world s1);
                s2 = s1\<lparr>world := w\<rparr>
            in case r of
                 Inl e \<Rightarrow> ([], s2)
               | Inr docs \<Rightarrow> (filter truthy docs, s2))"

section \<open>Background server, files\<close>

definition unquote :: "string \<Rightarrow> string" where
  "unquote t = strip_chars [CHR 0x27] (strip_chars [CHR 0x22] (strip t))"

definition memory_get :: "'w agent \<Rightarrow> string \<Rightarrow> json" where
  "memory_get s k = (case memory s k of None \<Rightarrow> JNull | Some v \<Rightarrow> v)"

definition serve_start :: "'w env \<Rightarrow> string \<Rightarrow> int \<Rightarrow> 'w agent \<Rightarrow> string \<times> 'w agent" where
  "serve_start env folder port s =
     (let f = unquote folder in
      if f = [] then (cross_mark @ '' Usage: /serve <folder> [port]'', s)
      else
        let (isdir, w1) = os_isdir env f (world s); s1 = s\<lparr>world := w1\<rparr> in
        if \<not> isdir then (cross_mark @ '' Folder not found: '' @ f, s1)
        else
          let (running, s2) =
                (case server_process s1 of
                   None \<Rightarrow> (False, s1)
                 | Some h \<Rightarrow> (let (rc, w2) = proc_poll env h (world s1)
                              in (rc = None, s1\<lparr>world := w2\<rparr>)))
          in
          if running then (cross_mark @ '' A server is already running. Use /serve stop first.'', s2)
          else
            let (r, w3) = popen_server env f port (world s2) in
            case r of
              Inl e \<Rightarrow> (cross_mark @ '' Failed to start server: '' @ exn_str e,
                        s2\<lparr>server_process := None, world := w3\<rparr>)
            | Inr h \<Rightarrow>
                (check_mark @ '' Serving '' @ [CHR 0x27] @ f @ [CHR 0x27]
                   @ '' on http://localhost:'' @ py_str env (JInt port) @ nl
                   @ ''Stop with: /serve stop'',
                 save_memory env
                   (s2\<lparr>server_process := Some h, world := w3,
                       memory := (memory s2)(''last_served_folder'' \<mapsto> JString f,
                                             ''last_served_port'' \<mapsto> JInt port)\<rparr>)))"

definition serve_stop :: "'w env \<Rightarrow> 'w agent \<Rightarrow> string \<times> 'w agent" where
  "serve_stop env s =
     (case server_process s of
        None \<Rightarrow> (info_mark @ '' No server is currently running.'', s)
      | Some h \<Rightarrow>
          (let (rc, w) = proc_poll env h (world s) in
           if rc \<noteq> None then
             (info_mark @ '' No server is currently running.'',
              s\<lparr>server_process := None, world := w\<rparr>)
           else
             (check_mark @ '' Server stopped.'',
              s\<lparr>server_process := None, world := proc_stop env h w\<rparr>)))"

text \<open>
  \<^verbatim>\<open>_list_files\<close>: after the folder name is normalised, the look-up, the listing and
  its formatting are the collaborator \<open>list_folder\<close>; reading the directory can raise.
\<close>

definition list_files :: "'w env \<Rightarrow> string \<Rightarrow> 'w agent \<Rightarrow> (exn + string) \<times> 'w agent" where
  "list_files env folder s =
     (let f = unquote (if folder = [] then ''.'' else folder);
          (r, w) = list_folder env f (world s)
      in (r, s\<lparr>world := w\<rparr>))"

definition read_file_text :: "'w env \<Rightarrow> string \<Rightarrow> 'w agent \<Rightarrow> string \<times> 'w agent" where
  "read_file_text env path s =
     (let p = unquote path in
      if p = [] then (cross_mark @ '' Usage: /open <file-path>'', s)
      else
        let (r, w) = read_text env p (world s); s' = s\<lparr>world := w\<rparr>
        in case r of
             NoSuchFile \<Rightarrow> (cross_mark @ '' File not found: '' @ p, s')
           | FileText t \<Rightarrow>
               (if length t > 8000 then take 8000 t @ nl @ nl @ ''... (truncated)'' else t, s')
           | ReadFailed e \<Rightarrow> (cross_mark @ '' Failed to read file: '' @ exn_str e, s'))"

section \<open>Planning\<close>

text \<open>The dictionary \<^verbatim>\<open>state\<close> sent to the models.\<close>

definition agent_state_json :: "'w agent \<Rightarrow> json list \<Rightarrow> json" where
  "agent_state_json s retrieved =
     JObject ([(''current_model'', JString (model_name s)),
               (''planner_model'', JString (planner_model_name s)),
               (''last_served_folder'', memory_get s ''last_served_folder''),
               (''last_served_port'', memory_get s ''last_served_port''),
               (''rag_enabled'', JBool (rag_enabled s))]
              @ (if retrieved \<noteq> [] then [(''retrieved_memories'', JArray retrieved)] else []))"

text \<open>\<^verbatim>\<open>_plan\<close>: the stripped text that the planner model returns.\<close>

definition plan :: "'w env \<Rightarrow> string \<Rightarrow> 'w agent \<Rightarrow> (exn + string) \<times> 'w agent" where
  "plan env user_input s =
     (let history_text =
            join nl (map (\<lambda>m. upper (role m) @ '': '' @ content m)
                         (py_slice_from (- 6) (chat_history s)));
          (retrieved, s1) = rag_query env user_input 3 s;
          messages =
            [(''system'', planner_prompt s),
             (''system'', ''Agent state (JSON): '' @ json_dumps env (agent_state_json s retrieved)),
             (''system'', ''Recent chat history (for context):'' @ nl @ history_text),
             (''human'', user_input)];
          (r, w) = planner_invoke env messages (world s1); s2 = s1\<lparr>world := w\<rparr>
      in case r of
           Inl e \<Rightarrow> (Inl e, s2)
         | Inr answer \<Rightarrow> (Inr (strip answer), s2))"

text \<open>
  The block of \<^verbatim>\<open>process_request\<close> that decodes the planner's text: \<open>Some out\<close> when a
  plan was executed and \<open>out\<close> is returned, \<open>None\<close> when control falls through to the
  normal response. The \<^verbatim>\<open>except Exception: pass\<close> discards every exception raised in
  the block; what the executed actions did before remains done.
\<close>

definition run_planned :: "'w env \<Rightarrow> string \<Rightarrow> 'w agent \<Rightarrow> string option \<times> 'w agent" where
  "run_planned env planned s =
     (if startswith planned ''{'' then
        (case json_loads env planned of
           Inl e \<Rightarrow> (None, s)
         | Inr p \<Rightarrow>
             (case p of
                JObject kvs \<Rightarrow>
                  if dict_get kvs ''type'' = JString ''plan'' then
                    (case execute_plan env p s of
                       (Inl e, s') \<Rightarrow> (None, s')
                     | (Inr out, s') \<Rightarrow>
                         (Some out,
                          append_history env ''assistant'' out
                            (remember env ''last_action'' (JString ''executed_plan'') s')))
                  else (None, s)
              | _ \<Rightarrow> (None, s)))
      else (None, s))"

text \<open>The normal response path: the primary model answers the request.\<close>

definition normal_response ::
  "'w env \<Rightarrow> string \<Rightarrow> 'w agent \<Rightarrow> (exn + string) \<times> 'w agent" where
  "normal_response env user_input s =
     (let (retrieved, s1) = rag_query env user_input 3 s;
          messages =
            [(''system'', system_prompt s),
             (''system'', ''Agent state (JSON): '' @ json_dumps env (agent_state_json s retrieved)),
             (''human'', user_input)];
          (r, w) = llm_invoke env messages (world s1); s2 = s1\<lparr>world := w\<rparr>
      in case r of
           Inl e \<Rightarrow> (Inl e, s2)
         | Inr answer \<Rightarrow>
             (let s3 = append_history env ''assistant'' answer s2
              in (Inr answer,
                  if rag_enabled s3
                  then snd (rag_add env (''USER: '' @ user_input @ nl @ ''ASSISTANT: '' @ answer)
                              ''chat'' s3)
                  else s3)))"

section \<open>Command router and request cycle\<close>

definition available_models :: "string list" where
  "available_models = [''gpt-oss:120b-cloud'', ''deepseek-v3.1:671b-cloud'', ''qwen3-coder:480b-cloud'']"

text \<open>\<^verbatim>\<open>s.split()\<close>: the words between runs of white space.\<close>

fun split_from :: "string \<Rightarrow> string \<Rightarrow> string list" where
  "split_from cur [] = (if cur = [] then [] else [rev cur])"
| "split_from cur (c # cs) =
     (if isspace c
      then (if cur = [] then split_from [] cs else rev cur # split_from [] cs)
      else split_from (c # cur) cs)"

definition py_split :: "string \<Rightarrow> string list" where
  "py_split t = split_from [] t"

text \<open>\<^verbatim>\<open>s.split(maxsplit=1)\<close>: the first word and the rest without its leading white space.\<close>

definition py_split_once :: "string \<Rightarrow> string list" where
  "py_split_once t =
     (let t1 = dropWhile isspace t;
          w = takeWhile (\<lambda>c. \<not> isspace c) t1;
          r = dropWhile isspace (dropWhile (\<lambda>c. \<not> isspace c) t1)
      in if w = [] then [] else if r = [] then [w] else [w, r])"

text \<open>
  The end of every handled directive:
  \<^verbatim>\<open>self._append_history("assistant", out); return out\<close>.
\<close>

definition respond :: "'w env \<Rightarrow> string \<times> 'w agent \<Rightarrow> (exn + string) \<times> 'w agent" where
  "respond env r = (Inr (fst r), append_history env ''assistant'' (fst r) (snd r))"

definition respond_or_raise ::
  "'w env \<Rightarrow> (exn + string) \<times> 'w agent \<Rightarrow> (exn + string) \<times> 'w agent" where
  "respond_or_raise env r =
     (case r of (Inl e, s) \<Rightarrow> (Inl e, s) | (Inr out, s) \<Rightarrow> respond env (out, s))"

text \<open>
  The explicit commands of \<^verbatim>\<open>process_request\<close>, tested in the order of the source:
  \<open>Some\<close> the outcome of the first one that matches, \<open>None\<close> when none does.
\<close>

definition directive ::
  "'w env \<Rightarrow> string \<Rightarrow> 'w agent \<Rightarrow> ((exn + string) \<times> 'w agent) option" where
  "directive env user_input s =
     (let u = strip user_input; l = lower u in
      if l = ''/models'' \<or> l = ''/model list'' then
        Some (respond env
          (''Available models:'' @ nl @ join nl (map (\<lambda>m. ''- '' @ m) available_models)
             @ nl @ nl @ ''Current: '' @ model_name s @ nl @ nl @ ''Use: /model <name>'', s))
      else if startswith l ''/model '' then
        (let arg = strip (drop 7 u) in
         if lower arg = ''show'' \<or> lower arg = ''current''
         then Some (respond env (''Current model: '' @ model_name s, s))
         else Some (respond_or_raise env (set_model env arg s)))
      else if l = ''/planner'' \<or> l = ''/planner show'' then
        Some (respond env (''Planner model: '' @ planner_model_name s, s))
      else if startswith l ''/planner '' then
        Some (respond_or_raise env (set_planner_model env (strip (drop 9 u)) s))
      else if startswith l ''/remember '' then
        Some (respond env (rag_add env (strip (drop 10 u)) ''manual'' s))
      else if startswith l ''/memories'' then
        (let q = strip (drop 9 u) in
         if q = [] then Some (respond env (cross_mark @ '' Usage: /memories <query>'', s))
         else
           let (items, s1) = rag_query env q 6 s in
           if items = [] then Some (respond env (info_mark @ '' No relevant memories found.'', s1))
           else Some (respond env
                  (''Retrieved memories:'' @ nl
                     @ join nl (map (\<lambda>m. ''- '' @ py_str env m) items), s1)))
      else if startswith l ''/serve'' then
        (case py_split u of
           [] \<Rightarrow> Some (Inl (Exception ''list index out of range''), s)
         | [p0] \<Rightarrow>
             (let fv = memory_get s ''last_served_folder'';
                  pv = memory_get s ''last_served_port'';
                  folder = (if truthy fv then fv else JString ''restaurant-site'')
              in case py_int env (if truthy pv then pv else JInt 8000) of
                   Inl e \<Rightarrow> Some (Inl e, s)
                 | Inr port \<Rightarrow>
                     (case folder of
                        JString f \<Rightarrow> Some (respond env (serve_start env f port s))
                      | _ \<Rightarrow> Some (Inl (attribute_error folder ''strip''), s)))
         | p0 # p1 # ps \<Rightarrow>
             if lower p1 = ''stop'' then Some (respond env (serve_stop env s))
             else
               (case ps of
                  [] \<Rightarrow> Some (respond env (serve_start env p1 8000 s))
                | p2 # _ \<Rightarrow>
                    (case int_of_str env p2 of
                       None \<Rightarrow>
                         Some (respond env
                           (cross_mark @ '' Port must be a number. Example: /serve restaurant-site 8000'', s))
                     | Some port \<Rightarrow> Some (respond env (serve_start env p1 port s)))))
      else if l = ''/pwd'' \<or> l = ''/cwd'' then
        (let (r, w) = getcwd env (world s) in Some (respond_or_raise env (r, s\<lparr>world := w\<rparr>)))
      else if startswith l ''/files'' then
        (let parts = py_split_once u;
             folder = (case parts of [p0, p1] \<Rightarrow> p1 | _ \<Rightarrow> ''.'')
         in Some (respond_or_raise env (list_files env folder s)))
      else if startswith l ''/open '' then
        Some (respond env (read_file_text env (strip (drop 6 u)) s))
      else if l = ''/confirm'' then Some (respond env (confirm_command env s))
      else if l = ''/cancel'' then Some (respond env (cancel_command s))
      else if startswith l ''/run '' then
        (let cmd = strip (drop 5 u) in
         if cmd = [] then Some (respond env (cross_mark @ '' Usage: /run <command>'', s))
         else if is_command_allowed cmd then Some (respond env (run_command env (JString cmd) s))
         else Some (respond env (queue_command cmd ''Not in safe allowlist'' s)))
      else if startswith l ''/search '' then
        Some (respond env (web_search env (JString (strip (drop 8 u))) s))
      else None)"

text \<open>The body of the \<^verbatim>\<open>try\<close> of \<^verbatim>\<open>process_request\<close>.\<close>

definition process_request_body ::
  "'w env \<Rightarrow> string \<Rightarrow> 'w agent \<Rightarrow> (exn + string) \<times> 'w agent" where
  "process_request_body env user_input s0 =
     (let s = remember env ''last_request'' (JString user_input)
                (append_history env ''user'' user_input s0)
      in case directive env user_input s of
           Some r \<Rightarrow> r
         | None \<Rightarrow>
             (case plan env user_input s of
                (Inl e, s1) \<Rightarrow> (Inl e, s1)
              | (Inr planned, s1) \<Rightarrow>
                  (case run_planned env planned s1 of
                     (Some out, s2) \<Rightarrow> (Inr out, s2)
                   | (None, s2) \<Rightarrow> normal_response env user_input s2)))"

text \<open>
  \<^verbatim>\<open>process_request\<close>: the handler \<^verbatim>\<open>except Exception as e\<close> around the whole body
  returns the error text.
\<close>

definition process_request :: "'w env \<Rightarrow> string \<Rightarrow> 'w agent \<Rightarrow> string \<times> 'w agent" where
  "process_request env user_input s0 =
     (case process_request_body env user_input s0 of
        (Inr out, s) \<Rightarrow> (out, s)
      | (Inl e, s) \<Rightarrow> (cross_mark @ '' Error processing request: '' @ exn_str e, s))"

section \<open>A decoder for JSON text\<close>

text \<open>
  A model of \<^verbatim>\<open>json.loads\<close> of the Python library on the part of JSON that the plan
  protocol uses: objects (a repeated key keeps its last value), arrays, strings with the
  two-character escapes, integers, \<^verbatim>\<open>true\<close>, \<^verbatim>\<open>false\<close> and \<^verbatim>\<open>null\<close>. On numbers with
  a fraction or an exponent and on \<^verbatim>\<open>\u\<close> escapes it raises. The statements about the
  agent take the decoder from the environment and do not depend on this model; it serves
  the worked examples. The first argument of \<open>decode_value\<close> bounds the number of calls:
  one more than the length of the text is enough, since every call consumes a character.
\<close>

definition json_space :: "char \<Rightarrow> bool" where
  "json_space c \<longleftrightarrow> c \<in> set [CHR 0x20, CHR 0x09, CHR 0x0A, CHR 0x0D]"

definition skip_space :: "string \<Rightarrow> string" where
  "skip_space t = dropWhile json_space t"

definition unescape :: "char \<Rightarrow> char option" where
  "unescape c =
     map_of [(CHR 0x22, CHR 0x22), (CHR 0x5C, CHR 0x5C), (CHR ''/'', CHR ''/''),
             (CHR ''b'', CHR 0x08), (CHR ''f'', CHR 0x0C), (CHR ''n'', CHR 0x0A),
             (CHR ''r'', CHR 0x0D), (CHR ''t'', CHR 0x09)] c"

fun decode_string :: "string \<Rightarrow> string \<Rightarrow> (string \<times> string) option" where
  "decode_string acc [] = None"
| "decode_string acc [c] = (if c = CHR 0x22 then Some (rev acc, []) else None)"
| "decode_string acc (c # d # cs) =
     (if c = CHR 0x22 then Some (rev acc, d # cs)
      else if c = CHR 0x5C then
        (case unescape d of None \<Rightarrow> None | Some x \<Rightarrow> decode_string (x # acc) cs)
      else if (of_char c :: nat) < 32 then None
      else decode_string (c # acc) (d # cs))"

definition digit_value :: "char \<Rightarrow> nat option" where
  "digit_value c = map_of (zip ''0123456789'' [0, 1, 2, 3, 4, 5, 6, 7, 8, 9]) c"

fun decode_digits :: "nat \<Rightarrow> string \<Rightarrow> nat \<times> string" where
  "decode_digits n [] = (n, [])"
| "decode_digits n (c # cs) =
     (case digit_value c of None \<Rightarrow> (n, c # cs) | Some d \<Rightarrow> decode_digits (10 * n + d) cs)"

definition decode_number :: "string \<Rightarrow> (json \<times> string) option" where
  "decode_number t =
     (let negative = (t \<noteq> [] \<and> hd t = CHR ''-''); u = (if negative then tl t else t) in
      case u of
        [] \<Rightarrow> None
      | c # cs \<Rightarrow>
          (case digit_value c of
             None \<Rightarrow> None
           | Some d \<Rightarrow>
               (let (n, r) = (if d = 0 then (0, cs) else decode_digits d cs) in
                if r \<noteq> [] \<and> hd r \<in> set ''.eE'' then None
                else Some (JInt (if negative then - int n else int n), r))))"

fun dict_set :: "string \<Rightarrow> json \<Rightarrow> (string \<times> json) list \<Rightarrow> (string \<times> json) list" where
  "dict_set k v [] = [(k, v)]"
| "dict_set k v ((k', v') # kvs) =
     (if k = k' then (k, v) # kvs else (k', v') # dict_set k v kvs)"

fun decode_value :: "'f list \<Rightarrow> string \<Rightarrow> (json \<times> string) option"
  and decode_elements :: "'f list \<Rightarrow> json list \<Rightarrow> string \<Rightarrow> (json \<times> string) option"
  and decode_members :: "'f list \<Rightarrow> (string \<times> json) list \<Rightarrow> string \<Rightarrow> (json \<times> string) option"
where
  "decode_value [] t = None"
| "decode_value (f # fuel) t =
     (case t of
        [] \<Rightarrow> None
      | c # cs \<Rightarrow>
          if c = CHR 0x22 then
            (case decode_string [] cs of None \<Rightarrow> None | Some (x, r) \<Rightarrow> Some (JString x, r))
          else if c = CHR ''{'' then
            (case skip_space cs of
               [] \<Rightarrow> None
             | d # r \<Rightarrow> if d = CHR ''}'' then Some (JObject [], r)
                        else decode_members fuel [] (d # r))
          else if c = CHR ''['' then
            (case skip_space cs of
               [] \<Rightarrow> None
             | d # r \<Rightarrow> if d = CHR '']'' then Some (JArray [], r)
                        else decode_elements fuel [] (d # r))
          else if take 4 t = ''true'' then Some (JBool True, drop 4 t)
          else if take 5 t = ''false'' then Some (JBool False, drop 5 t)
          else if take 4 t = ''null'' then Some (JNull, drop 4 t)
          else decode_number t)"
| "decode_elements [] acc t = None"
| "decode_elements (f # fuel) acc t =
     (case decode_value fuel t of
        None \<Rightarrow> None
      | Some (v, r) \<Rightarrow>
          (case skip_space r of
             [] \<Rightarrow> None
           | d # r' \<Rightarrow>
               if d = CHR '','' then decode_elements fuel (acc @ [v]) (skip_space r')
               else if d = CHR '']'' then Some (JArray (acc @ [v]), r')
               else None))"
| "decode_members [] acc t = None"
| "decode_members (f # fuel) acc t =
     (case t of
        [] \<Rightarrow> None
      | c # cs \<Rightarrow>
          if c \<noteq> CHR 0x22 then None
          else
            (case decode_string [] cs of
               None \<Rightarrow> None
             | Some (k, r) \<Rightarrow>
                 (case skip_space r of
                    [] \<Rightarrow> None
                  | d # r1 \<Rightarrow>
                      if d \<noteq> CHR '':'' then None
                      else
                        (case decode_value fuel (skip_space r1) of
                           None \<Rightarrow> None
                         | Some (v, r2) \<Rightarrow>
                             (case skip_space r2 of
                                [] \<Rightarrow> None
                              | e # r3 \<Rightarrow>
                                  if e = CHR '','' then
                                    decode_members fuel (dict_set k v acc) (skip_space r3)
                                  else if e = CHR ''}'' then Some (JObject (dict_set k v acc), r3)
                                  else None)))))"

definition json_decode :: "string \<Rightarrow> exn + json" where
  "json_decode t =
     (case decode_value (CHR ''{'' # t) (skip_space t) of
        None \<Rightarrow> Inl (Exception ''Expecting value'')
      | Some (v, r) \<Rightarrow> if skip_space r = [] then Inr v else Inl (Exception ''Extra data''))"

section \<open>A concrete session\<close>

text \<open>
  A world without content (\<^typ>\<open>unit\<close>), collaborators that succeed without doing
  anything, the decoder above, and the session of a first start with no memory file. The examples below
  replace single collaborators of \<open>idle_env\<close> to exercise a path.
\<close>

definition idle_env :: "unit env" where
  "idle_env =
     \<lparr>py_repr = (\<lambda>v. ''<repr>''),
      py_int = (\<lambda>v. case v of JInt n \<Rightarrow> Inr n | _ \<Rightarrow> Inl (Exception ''invalid literal for int()'')),
      int_of_str = (\<lambda>t. None),
      json_dumps = (\<lambda>v. ''{}''),
      json_loads = json_decode,
      dump_memory = (\<lambda>m w. w),
      init_llm = (\<lambda>a b m w. (None, w)),
      planner_invoke = (\<lambda>msgs w. (Inr ''ok'', w)),
      llm_invoke = (\<lambda>msgs w. (Inr ''ok'', w)),
      subprocess_run = (\<lambda>c w. (Completed 0 [] [], w)),
      write_file = (\<lambda>p c w. (None, w)),
      tavily_search = (\<lambda>k q w. (Inr ''results'', w)),
      embeddings_request = (\<lambda>m t w. (Inl (Exception ''connection refused''), w)),
      chroma_add = (\<lambda>t e m w. (None, w)),
      chroma_query = (\<lambda>e k w. (Inr [], w)),
      os_isdir = (\<lambda>f w. (False, w)),
      proc_poll = (\<lambda>h w. (None, w)),
      popen_server = (\<lambda>f p w. (Inr 1, w)),
      proc_stop = (\<lambda>h w. w),
      list_folder = (\<lambda>f w. (Inr ''(empty)'', w)),
      read_text = (\<lambda>p w. (NoSuchFile, w)),
      getcwd = (\<lambda>w. (Inr ''/'', w))\<rparr>"

definition fresh_agent :: "unit agent" where
  "fresh_agent =
     \<lparr>tavily_api_key = None,
      memory = Map.empty,
      chat_history = [],
      max_history = 20,
      model_name = ''gpt-oss:120b-cloud'',
      planner_model_name = ''qwen3-coder:480b-cloud'',
      server_process = None,
      pending_command = None,
      pending_command_reason = None,
      rag_enabled = True,
      rag_embed_model = ''nomic-embed-text:latest'',
      rag_k = 4,
      chroma_collection = False,
      system_prompt = ''You are an advanced autonomous coding agent.'',
      planner_prompt = ''You are a planner for a local coding agent.'',
      world = ()\<rparr>"

text \<open>The plan of the round-trip example and the value it decodes to.\<close>

definition hello_plan_text :: string where
  \<open>hello_plan_text = ''{"type":"plan","actions":[{"tool":"reply","text":"hello"}]}''\<close>

definition hello_plan :: json where
  "hello_plan =
     JObject [(''type'', JString ''plan''),
              (''actions'', JArray [JObject [(''tool'', JString ''reply''),
                                             (''text'', JString ''hello'')]])]"

section \<open>Properties of the allow-list check\<close>

lemmas text_eval = lower_def lower_char_def upper_def upper_char_def strip_def lstrip_def rstrip_def
  isspace_def startswith_def ascii_uppercase_def ascii_lowercase_def



lemmas json_eval = json_decode_def skip_space_def json_space_def unescape_def digit_value_def
  decode_number_def






section \<open>The history cap\<close>

lemma save_memory_fields [simp]:
  "chat_history (save_memory env s) = chat_history s"
  "max_history (save_memory env s) = max_history s"
  "pending_command (save_memory env s) = pending_command s"
  "pending_command_reason (save_memory env s) = pending_command_reason s"
  by (simp_all add: save_memory_def Let_def)

lemma append_history_fields:
  "chat_history (append_history env r c s) =
     py_slice_from (- max_history s) (chat_history s @ [\<lparr>role = r, content = c\<rparr>])"
  "max_history (append_history env r c s) = max_history s"
  by (simp_all add: append_history_def)

lemma py_slice_from_neg: "1 \<le> n \<Longrightarrow> py_slice_from (- n) xs = drop (length xs - nat n) xs"
  by (auto simp: py_slice_from_def intro: arg_cong [where f = "\<lambda>k. drop k xs"])

lemma drop_last_twice:
  "drop (length (drop (length xs - n) xs @ ys) - n) (drop (length xs - n) xs @ ys)
     = drop (length (xs @ ys) - n) (xs @ ys)"
  by (cases "n \<le> length xs") (auto simp: drop_append add.commute)

lemma max_history_append_all [simp]: "max_history (append_all env ms s) = max_history s"
  by (induction ms arbitrary: s) (auto simp: append_history_fields)

lemma chat_history_append_all:
  "1 \<le> max_history s \<Longrightarrow> ms \<noteq> [] \<Longrightarrow>
   chat_history (append_all env ms s)
     = drop (length (chat_history s @ ms) - nat (max_history s)) (chat_history s @ ms)"
proof (induction ms arbitrary: s)
  case Nil
  then show ?case by simp
next
  case (Cons m ms)
  let ?s1 = "append_history env (role m) (content m) s"
  have h1: "chat_history ?s1
      = drop (length (chat_history s @ [m]) - nat (max_history s)) (chat_history s @ [m])"
    using Cons.prems(1) by (simp add: append_history_fields py_slice_from_neg)
  show ?case
  proof (cases "ms = []")
    case True
    with h1 show ?thesis by simp
  next
    case False
    have "chat_history (append_all env (m # ms) s) = chat_history (append_all env ms ?s1)"
      by simp
    also have "\<dots> = drop (length (chat_history ?s1 @ ms) - nat (max_history s)) (chat_history ?s1 @ ms)"
      using Cons.IH [of ?s1] Cons.prems(1) False by (simp add: append_history_fields)
    also have "\<dots> = drop (length ((chat_history s @ [m]) @ ms) - nat (max_history s))
                        ((chat_history s @ [m]) @ ms)"
      unfolding h1 by (rule drop_last_twice)
    finally show ?thesis by simp
  qed
qed

text \<open>
  C2 (as amended). With a cap of at least one entry, after any non-empty sequence of
  appends the history holds at most \<open>max_history\<close> entries, and they are the last
  entries of the previous history followed by the appended ones, in insertion order:
  the oldest entries are the ones dropped.
\<close>

theorem chat_history_capped:
  "1 \<le> max_history s \<Longrightarrow> ms \<noteq> [] \<Longrightarrow>
   int (length (chat_history (append_all env ms s))) \<le> max_history s
   \<and> chat_history (append_all env ms s)
       = drop (length (chat_history s @ ms) - nat (max_history s)) (chat_history s @ ms)"
  using chat_history_append_all [of s ms env] by auto

theorem chat_history_capped_witness:
  "chat_history (append_all idle_env
       [\<lparr>role = ''user'', content = ''a''\<rparr>, \<lparr>role = ''assistant'', content = ''b''\<rparr>,
        \<lparr>role = ''user'', content = ''c''\<rparr>]
       (fresh_agent\<lparr>max_history := 2\<rparr>))
   = [\<lparr>role = ''assistant'', content = ''b''\<rparr>, \<lparr>role = ''user'', content = ''c''\<rparr>]"
  using chat_history_capped [of "fresh_agent\<lparr>max_history := 2\<rparr>"
      "[\<lparr>role = ''user'', content = ''a''\<rparr>, \<lparr>role = ''assistant'', content = ''b''\<rparr>,
        \<lparr>role = ''user'', content = ''c''\<rparr>]" idle_env]
  by (simp add: fresh_agent_def)

text \<open>
  The cap does not hold for every value of \<open>max_history\<close>. With the value 0 the slice
  \<^verbatim>\<open>chat_history[-0:]\<close> is the whole list and nothing is ever dropped; with a negative
  value the history still holds entries, more than the value.
\<close>

theorem chat_history_cap_counterexample:
  "length (chat_history (append_all idle_env
       [\<lparr>role = ''user'', content = ''a''\<rparr>, \<lparr>role = ''assistant'', content = ''b''\<rparr>,
        \<lparr>role = ''user'', content = ''c''\<rparr>]
       (fresh_agent\<lparr>max_history := 0\<rparr>))) = 3
   \<and> length (chat_history (append_all idle_env
       [\<lparr>role = ''user'', content = ''a''\<rparr>, \<lparr>role = ''assistant'', content = ''b''\<rparr>,
        \<lparr>role = ''user'', content = ''c''\<rparr>]
       (fresh_agent\<lparr>max_history := - 1, chat_history := [\<lparr>role = ''user'', content = ''z''\<rparr>]\<rparr>))) = 1"
  by (simp add: append_history_def save_memory_def py_slice_from_def fresh_agent_def Let_def)

section \<open>The pending command and model selection\<close>

lemma run_command_fields:
  "pending_command (snd (run_command env c s)) = pending_command s"
  "pending_command_reason (snd (run_command env c s)) = pending_command_reason s"
  by (auto simp: run_command_def Let_def split: prod.splits run_outcome.splits)

text \<open>
  C3. The session holds the pending command in one optional field, so there is never
  more than one. Queuing a command \<open>a\<close> and then a command \<open>b\<close> leaves exactly \<open>b\<close>
  pending, with the reason given for \<open>b\<close>: the state is the one that queuing \<open>b\<close>
  alone produces.
\<close>

theorem queue_command_overwrites:
  "pending_command (snd (queue_command b rb (snd (queue_command a ra s)))) = Some b
   \<and> pending_command_reason (snd (queue_command b rb (snd (queue_command a ra s)))) = Some rb
   \<and> snd (queue_command b rb (snd (queue_command a ra s))) = snd (queue_command b rb s)"
  by (simp add: queue_command_def)

text \<open>
  C4. With no command pending, confirm and cancel return the text "No pending command"
  (a result, not an exception) and the session state is unchanged, so doing it again
  gives the same result and state.
\<close>

theorem confirm_cancel_without_pending:
  "\<not> has_pending s \<Longrightarrow>
     confirm_command env s = (no_pending_command, s)
     \<and> cancel_command s = (no_pending_command, s)
     \<and> confirm_command env (snd (confirm_command env s)) = (no_pending_command, s)
     \<and> cancel_command (snd (cancel_command s)) = (no_pending_command, s)"
  by (auto simp: has_pending_def confirm_command_def cancel_command_def split: option.splits)

theorem confirm_cancel_without_pending_witness:
  "confirm_command idle_env fresh_agent = (no_pending_command, fresh_agent)
   \<and> cancel_command fresh_agent = (no_pending_command, fresh_agent)"
  using confirm_cancel_without_pending [of fresh_agent idle_env]
  by (simp add: has_pending_def fresh_agent_def)

text \<open>
  C9. Confirm clears the pending command and its reason before the command runs: the
  command is executed on the state in which both are already unset. After any confirm
  no command is pending, whatever the execution does (exit, failure or time-out), and
  a second confirm returns "No pending command".
\<close>

theorem confirm_clears_pending:
  "\<not> has_pending (snd (confirm_command env s))
   \<and> confirm_command env (snd (confirm_command env s))
       = (no_pending_command, snd (confirm_command env s))
   \<and> (has_pending s \<longrightarrow>
        (\<exists>cmd. pending_command s = Some cmd
           \<and> confirm_command env s
               = run_command env (JString cmd)
                   (s\<lparr>pending_command := None, pending_command_reason := None\<rparr>))
        \<and> pending_command (snd (confirm_command env s)) = None
        \<and> pending_command_reason (snd (confirm_command env s)) = None)"
proof -
  have np: "\<not> has_pending (snd (confirm_command env s))"
    by (auto simp: has_pending_def confirm_command_def run_command_fields split: option.splits)
  have again: "confirm_command env (snd (confirm_command env s))
       = (no_pending_command, snd (confirm_command env s))"
    using np by (auto simp: has_pending_def confirm_command_def split: option.splits)
  have pend: "has_pending s \<longrightarrow>
        (\<exists>cmd. pending_command s = Some cmd
           \<and> confirm_command env s
               = run_command env (JString cmd)
                   (s\<lparr>pending_command := None, pending_command_reason := None\<rparr>))
        \<and> pending_command (snd (confirm_command env s)) = None
        \<and> pending_command_reason (snd (confirm_command env s)) = None"
    by (auto simp: has_pending_def confirm_command_def run_command_fields split: option.splits)
  from np again pend show ?thesis by blast
qed

theorem confirm_clears_pending_witness:
  "confirm_command (idle_env\<lparr>subprocess_run := (\<lambda>c w. (TimeoutExpired, w))\<rparr>)
       (snd (queue_command ''rm -rf build'' ''Not in safe allowlist'' fresh_agent))
     = (cross_mark @ '' Command timed out: rm -rf build'', fresh_agent)"
proof -
  let ?env = "idle_env\<lparr>subprocess_run := (\<lambda>c w. (TimeoutExpired, w))\<rparr>"
  let ?s = "snd (queue_command ''rm -rf build'' ''Not in safe allowlist'' fresh_agent)"
  have hp: "has_pending ?s" by (simp add: has_pending_def queue_command_def)
  from confirm_clears_pending [of ?env ?s] hp
  have "\<exists>cmd. pending_command ?s = Some cmd
           \<and> confirm_command ?env ?s
               = run_command ?env (JString cmd)
                   (?s\<lparr>pending_command := None, pending_command_reason := None\<rparr>)"
    by blast
  then have "confirm_command ?env ?s
      = run_command ?env (JString ''rm -rf build'')
          (?s\<lparr>pending_command := None, pending_command_reason := None\<rparr>)"
    by (simp add: queue_command_def)
  then show ?thesis
    by (simp add: run_command_def queue_command_def idle_env_def fresh_agent_def py_str_def)
qed



section \<open>The plan executor\<close>
























lemma execute_hello: "execute_plan env hello_plan s = (Inr ''hello'', s)"
  by (simp add: execute_plan_def hello_plan_def dict_get_or_def dict_get_def py_iter_def
      run_action_def join_outputs_def Let_def)

text \<open>
  C5. When the decoder turns the text
  \<^verbatim>\<open>{"type":"plan","actions":[{"tool":"reply","text":"hello"}]}\<close> into the dictionary it
  denotes, the block that handles the planner's text takes it as a plan, executes it and
  returns exactly \<^verbatim>\<open>hello\<close>; the executor itself yields \<^verbatim>\<open>hello\<close> and touches nothing.
\<close>

theorem plan_round_trip:
  assumes "json_loads env hello_plan_text = Inr hello_plan"
  shows "run_planned env hello_plan_text s
           = (Some ''hello'',
              append_history env ''assistant'' ''hello''
                (remember env ''last_action'' (JString ''executed_plan'') s))
         \<and> execute_plan env hello_plan s = (Inr ''hello'', s)"
proof -
  have st: "startswith hello_plan_text ''{''"
    by (simp add: startswith_def hello_plan_text_def)
  have ty: "hello_plan = JObject [(''type'', JString ''plan''),
              (''actions'', JArray [JObject [(''tool'', JString ''reply''),
                                             (''text'', JString ''hello'')]])]"
    by (simp add: hello_plan_def)
  have "run_planned env hello_plan_text s
           = (Some ''hello'',
              append_history env ''assistant'' ''hello''
                (remember env ''last_action'' (JString ''executed_plan'') s))"
    using assms st execute_hello [of env s]
    by (simp add: run_planned_def ty [symmetric])
       (simp add: ty dict_get_def dict_get_or_def)
  with execute_hello show ?thesis by simp
qed

theorem plan_round_trip_witness:
  "fst (process_request
          (idle_env\<lparr>planner_invoke := (\<lambda>msgs w. (Inr hello_plan_text, w))\<rparr>)
          ''say hello'' fresh_agent) = ''hello''"
proof -
  let ?env = "idle_env\<lparr>planner_invoke := (\<lambda>msgs w. (Inr hello_plan_text, w))\<rparr>"
  let ?s = "remember ?env ''last_request'' (JString ''say hello'')
              (append_history ?env ''user'' ''say hello'' fresh_agent)"
  have d: "directive ?env ''say hello'' ?s = None"
    by (simp add: directive_def text_eval Let_def)
  have st: "strip hello_plan_text = hello_plan_text"
    by (simp add: hello_plan_text_def text_eval)
  have rq: "rag_query ?env ''say hello'' 3 ?s = ([], ?s)"
    by (simp add: rag_query_def remember_def append_history_def save_memory_def fresh_agent_def Let_def)
  have p: "plan ?env ''say hello'' ?s = (Inr hello_plan_text, ?s)"
    unfolding plan_def rq by (simp add: idle_env_def st Let_def)
  have l: "json_loads ?env hello_plan_text = Inr hello_plan"
    by (simp add: idle_env_def json_eval hello_plan_text_def hello_plan_def)
  note rp = plan_round_trip [OF l, of ?s, THEN conjunct1]
  have "process_request_body ?env ''say hello'' fresh_agent
          = (Inr ''hello'',
             append_history ?env ''assistant'' ''hello''
               (remember ?env ''last_action'' (JString ''executed_plan'') ?s))"
    by (simp only: process_request_body_def Let_def d p rp option.case sum.case prod.case)
  then show ?thesis by (simp add: process_request_def)
qed

section \<open>The request cycle\<close>

lemma normal_response_answer:
  "fst (normal_response env inp s) = Inr a \<Longrightarrow> \<exists>msgs w. fst (llm_invoke env msgs w) = Inr a"
  unfolding normal_response_def Let_def
  by (auto split: prod.splits sum.splits) (metis fst_conv)

text \<open>
  C7 (as amended). When the planner's text does not start with a brace, or the decoder
  raises on it, or it decodes to a value that is not a dictionary of type
  \<^verbatim>\<open>"plan"\<close>, the block that handles it raises nothing, executes no plan and leaves the
  session as it was. The request then takes the normal response path, and whatever that
  path returns is an answer of the primary model: the planner's text is not returned.
\<close>

theorem planner_text_not_a_plan:
  assumes "\<not> startswith planned ''{''
           \<or> (\<exists>e. json_loads env planned = Inl e)
           \<or> (\<exists>v. json_loads env planned = Inr v
                  \<and> (\<forall>kvs. v = JObject kvs \<longrightarrow> dict_get kvs ''type'' \<noteq> JString ''plan''))"
  shows "run_planned env planned s = (None, s)
         \<and> (directive env inp (remember env ''last_request'' (JString inp)
                                  (append_history env ''user'' inp s0)) = None
              \<and> plan env inp (remember env ''last_request'' (JString inp)
                                  (append_history env ''user'' inp s0)) = (Inr planned, s)
              \<longrightarrow> process_request_body env inp s0 = normal_response env inp s
                  \<and> (\<forall>a. fst (process_request_body env inp s0) = Inr a
                         \<longrightarrow> (\<exists>msgs w. fst (llm_invoke env msgs w) = Inr a)))"
proof -
  have rp: "run_planned env planned s = (None, s)"
    using assms by (auto simp: run_planned_def split: sum.splits json.splits)
  have "process_request_body env inp s0 = normal_response env inp s"
    if "directive env inp (remember env ''last_request'' (JString inp)
                                  (append_history env ''user'' inp s0)) = None"
      and "plan env inp (remember env ''last_request'' (JString inp)
                                  (append_history env ''user'' inp s0)) = (Inr planned, s)"
    using that rp
    by (simp only: process_request_body_def Let_def option.case sum.case prod.case)
  with rp show ?thesis using normal_response_answer by metis
qed

theorem planner_text_not_a_plan_witness:
  \<open>run_planned idle_env ''Sure, here is your answer.'' fresh_agent = (None, fresh_agent)
   \<and> run_planned idle_env ''{"type": "plan", "actions": ['' fresh_agent = (None, fresh_agent)
   \<and> run_planned idle_env ''{"type":"note","text":"hi"}'' fresh_agent = (None, fresh_agent)\<close>
proof -
  have free: "\<not> startswith ''Sure, here is your answer.'' ''{''"
    by (simp add: startswith_def)
  have broken: \<open>\<exists>e. json_loads idle_env ''{"type": "plan", "actions": ['' = Inl e\<close>
    by (simp add: idle_env_def json_eval)
  have other: \<open>\<exists>v. json_loads idle_env ''{"type":"note","text":"hi"}'' = Inr v
                  \<and> (\<forall>kvs. v = JObject kvs \<longrightarrow> dict_get kvs ''type'' \<noteq> JString ''plan'')\<close>
    by (simp add: idle_env_def json_eval dict_get_def dict_get_or_def)
  from planner_text_not_a_plan [of "''Sure, here is your answer.''" idle_env fresh_agent] free
  have 1: "run_planned idle_env ''Sure, here is your answer.'' fresh_agent = (None, fresh_agent)"
    by blast
  from planner_text_not_a_plan [of _ idle_env fresh_agent] broken
  have 2: \<open>run_planned idle_env ''{"type": "plan", "actions": ['' fresh_agent = (None, fresh_agent)\<close>
    by blast
  from planner_text_not_a_plan [of _ idle_env fresh_agent] other
  have 3: \<open>run_planned idle_env ''{"type":"note","text":"hi"}'' fresh_agent = (None, fresh_agent)\<close>
    by blast
  from 1 2 3 show ?thesis by simp
qed

text \<open>
  The planner's text is not the reply. Here the planner answers in plain text, and the
  request returns what the primary model says.
\<close>

theorem planner_text_not_returned_counterexample:
  "fst (process_request
          (idle_env\<lparr>planner_invoke := (\<lambda>msgs w. (Inr ''Sure, here is your answer.'', w)),
                    llm_invoke := (\<lambda>msgs w. (Inr ''Paris.'', w))\<rparr>)
          ''capital of France?'' fresh_agent) = ''Paris.''
   \<and> fst (process_request
          (idle_env\<lparr>planner_invoke := (\<lambda>msgs w. (Inr ''Sure, here is your answer.'', w)),
                    llm_invoke := (\<lambda>msgs w. (Inr ''Paris.'', w))\<rparr>)
          ''capital of France?'' fresh_agent) \<noteq> ''Sure, here is your answer.''"
proof -
  let ?env = "idle_env\<lparr>planner_invoke := (\<lambda>msgs w. (Inr ''Sure, here is your answer.'', w)),
                    llm_invoke := (\<lambda>msgs w. (Inr ''Paris.'', w))\<rparr>"
  let ?inp = "''capital of France?''"
  let ?s = "remember ?env ''last_request'' (JString ?inp)
              (append_history ?env ''user'' ?inp fresh_agent)"
  have d: "directive ?env ?inp ?s = None"
    by (simp add: directive_def text_eval Let_def)
  have st: "strip ''Sure, here is your answer.'' = ''Sure, here is your answer.''"
    by (simp add: text_eval)
  have rq: "rag_query ?env ?inp 3 ?s = ([], ?s)"
    by (simp add: rag_query_def remember_def append_history_def save_memory_def fresh_agent_def Let_def)
  have p: "plan ?env ?inp ?s = (Inr ''Sure, here is your answer.'', ?s)"
    unfolding plan_def rq by (simp add: idle_env_def st Let_def)
  have rp: "run_planned ?env ''Sure, here is your answer.'' ?s = (None, ?s)"
    by (simp add: run_planned_def startswith_def)
  have nr: "fst (normal_response ?env ?inp ?s) = Inr ''Paris.''"
    unfolding normal_response_def rq by (simp add: idle_env_def Let_def)
  have "process_request_body ?env ?inp fresh_agent = normal_response ?env ?inp ?s"
    by (simp only: process_request_body_def Let_def d p rp option.case sum.case prod.case)
  moreover from nr obtain s' where "normal_response ?env ?inp ?s = (Inr ''Paris.'', s')"
    by (cases "normal_response ?env ?inp ?s") simp
  ultimately have "process_request ?env ?inp fresh_agent = (''Paris.'', s')"
    by (simp only: process_request_def sum.case prod.case)
  then show ?thesis by simp
qed



end
